theory Spec2Isabelle
  imports Complex_Main "HOL-Library.Word"
begin

section \<open>Single-precision lanes\<close>

text \<open>
  Every lane of a \<^verbatim>\<open>vector_t\<close> is a \<^verbatim>\<open>float32_t\<close>. The library does its arithmetic with
  the C operators on \<^verbatim>\<open>float32_t\<close> and with SSE intrinsics, both of which are IEEE-754
  binary32 operations rounded to nearest, ties to even, one rounding per operation (a
  product and the sum it enters are rounded separately), in the default control state:
  subnormal numbers are neither flushed to zero nor read as zero.
  A lane is therefore one of: a NaN, an infinity with its sign bit, a zero with its sign
  bit, or a non-zero real number. The sign bit is \<open>True\<close> for a negative value.
  A NaN keeps all its bits: its sign bit, its quiet bit (\<open>False\<close> for a signalling NaN) and
  the 22 bits of its payload.
\<close>

datatype float32 = NaN bool bool nat | Infinity bool | Zero bool | Val real

text \<open>Nearest integer, ties to the even one.\<close>

definition round_even :: "real \<Rightarrow> int" where
  "round_even x =
     (let f = \<lfloor>x\<rfloor>; d = x - of_int f
      in if d < 1 / 2 then f else if 1 / 2 < d then f + 1 else if even f then f else f + 1)"

text \<open>
  Rounding of a non-zero real to binary32. The binade exponent is clipped at \<open>-126\<close>
  (below it the subnormals are spaced \<open>2 powi (-149)\<close> apart), the spacing of the
  representable numbers around \<open>r\<close> is \<open>2 powi (e - 23)\<close>, a magnitude that rounds to
  \<open>2 ^ 128\<close> or more overflows to the infinity of the same sign, and one that rounds to
  nothing underflows to the zero of the same sign.
\<close>

definition round32 :: "real \<Rightarrow> float32" where
  "round32 r =
     (let a = \<bar>r\<bar>;
          e = max \<lfloor>log 2 a\<rfloor> (- 126);
          u = 2 powi (e - 23);
          n = round_even (a / u);
          m = of_int n * u
      in if n = 0 then Zero (r < 0)
         else if 2 ^ 128 \<le> m then Infinity (r < 0)
         else Val (if r < 0 then - m else m))"

text \<open>
  A lane is well formed when a \<open>Val\<close> holds a non-zero representable number and a NaN a
  payload of 22 bits, not zero when the NaN is signalling (quiet bit and payload all
  zero is the bit pattern of an infinity).
\<close>

fun is_float32 :: "float32 \<Rightarrow> bool" where
  "is_float32 (Val r) = (r \<noteq> 0 \<and> round32 r = Val r)"
| "is_float32 (NaN s q p) = (p < 2 ^ 22 \<and> (q \<or> 0 < p))"
| "is_float32 _ = True"

fun is_finite :: "float32 \<Rightarrow> bool" where
  "is_finite (Val r) = True"
| "is_finite (Zero s) = True"
| "is_finite _ = False"

fun is_nan :: "float32 \<Rightarrow> bool" where
  "is_nan (NaN s q p) = True"
| "is_nan _ = False"

fun is_signalling :: "float32 \<Rightarrow> bool" where
  "is_signalling (NaN s q p) = (\<not> q)"
| "is_signalling _ = False"

text \<open>
  The NaN rules of the SSE instructions. An operation with a NaN operand returns that
  operand with its quiet bit set and the other bits kept; with two NaN operands it
  returns the first one (the functions below take their operands in the order of the
  source; no theorem of a claim depends on which of two NaNs is returned). An
  invalid operation on operands that are not NaNs (infinity minus infinity, zero times
  infinity, the square root of a negative number) returns the default NaN: negative,
  quiet, payload zero.
\<close>

definition default_nan :: float32 where
  "default_nan = NaN True True 0"

text \<open>The unary minus of C flips the sign bit and nothing else, also of a NaN.\<close>

fun f32_neg :: "float32 \<Rightarrow> float32" where
  "f32_neg (NaN s q p) = NaN (\<not> s) q p"
| "f32_neg (Infinity s) = Infinity (\<not> s)"
| "f32_neg (Zero s) = Zero (\<not> s)"
| "f32_neg (Val a) = Val (- a)"

fun f32_add :: "float32 \<Rightarrow> float32 \<Rightarrow> float32" where
  "f32_add (NaN s q p) b = NaN s True p"
| "f32_add a (NaN s q p) = NaN s True p"
| "f32_add (Infinity s) (Infinity t) = (if s = t then Infinity s else default_nan)"
| "f32_add (Infinity s) b = Infinity s"
| "f32_add a (Infinity t) = Infinity t"
| "f32_add (Zero s) (Zero t) = Zero (s \<and> t)"
| "f32_add (Zero s) (Val b) = Val b"
| "f32_add (Val a) (Zero t) = Val a"
| "f32_add (Val a) (Val b) = (if a + b = 0 then Zero False else round32 (a + b))"

text \<open>
  A difference is the sum with the negated second operand, except that a NaN operand
  comes back with its own sign.
\<close>

fun f32_sub :: "float32 \<Rightarrow> float32 \<Rightarrow> float32" where
  "f32_sub (NaN s q p) b = NaN s True p"
| "f32_sub a (NaN s q p) = NaN s True p"
| "f32_sub a b = f32_add a (f32_neg b)"

fun f32_mul :: "float32 \<Rightarrow> float32 \<Rightarrow> float32" where
  "f32_mul (NaN s q p) b = NaN s True p"
| "f32_mul a (NaN s q p) = NaN s True p"
| "f32_mul (Infinity s) (Zero t) = default_nan"
| "f32_mul (Zero s) (Infinity t) = default_nan"
| "f32_mul (Infinity s) (Infinity t) = Infinity (s \<noteq> t)"
| "f32_mul (Infinity s) (Val b) = Infinity (s \<noteq> (b < 0))"
| "f32_mul (Val a) (Infinity t) = Infinity ((a < 0) \<noteq> t)"
| "f32_mul (Zero s) (Zero t) = Zero (s \<noteq> t)"
| "f32_mul (Zero s) (Val b) = Zero (s \<noteq> (b < 0))"
| "f32_mul (Val a) (Zero t) = Zero ((a < 0) \<noteq> t)"
| "f32_mul (Val a) (Val b) = round32 (a * b)"

fun f32_div :: "float32 \<Rightarrow> float32 \<Rightarrow> float32" where
  "f32_div (NaN s q p) b = NaN s True p"
| "f32_div a (NaN s q p) = NaN s True p"
| "f32_div (Infinity s) (Infinity t) = default_nan"
| "f32_div (Zero s) (Zero t) = default_nan"
| "f32_div (Infinity s) (Zero t) = Infinity (s \<noteq> t)"
| "f32_div (Infinity s) (Val b) = Infinity (s \<noteq> (b < 0))"
| "f32_div (Zero s) (Infinity t) = Zero (s \<noteq> t)"
| "f32_div (Val a) (Infinity t) = Zero ((a < 0) \<noteq> t)"
| "f32_div (Zero s) (Val b) = Zero (s \<noteq> (b < 0))"
| "f32_div (Val a) (Zero t) = Infinity ((a < 0) \<noteq> t)"
| "f32_div (Val a) (Val b) = round32 (a / b)"

fun f32_sqrt :: "float32 \<Rightarrow> float32" where
  "f32_sqrt (NaN s q p) = NaN s True p"
| "f32_sqrt (Infinity s) = (if s then default_nan else Infinity False)"
| "f32_sqrt (Zero s) = Zero s"
| "f32_sqrt (Val a) = (if a < 0 then default_nan else round32 (sqrt a))"

text \<open>The comparison \<^verbatim>\<open><\<close> of C: false as soon as one side is a NaN.\<close>

fun f32_lt :: "float32 \<Rightarrow> float32 \<Rightarrow> bool" where
  "f32_lt (NaN s q p) b = False"
| "f32_lt a (NaN s q p) = False"
| "f32_lt (Infinity s) (Infinity t) = (s \<and> \<not> t)"
| "f32_lt (Infinity s) b = s"
| "f32_lt a (Infinity t) = (\<not> t)"
| "f32_lt (Zero s) (Zero t) = False"
| "f32_lt (Zero s) (Val b) = (0 < b)"
| "f32_lt (Val a) (Zero t) = (a < 0)"
| "f32_lt (Val a) (Val b) = (a < b)"

text \<open>The comparison \<^verbatim>\<open>==\<close> of C: a NaN equals nothing, the two zeros are equal.\<close>

fun f32_eq :: "float32 \<Rightarrow> float32 \<Rightarrow> bool" where
  "f32_eq (NaN s q p) b = False"
| "f32_eq a (NaN s q p) = False"
| "f32_eq (Zero s) (Zero t) = True"
| "f32_eq a b = (a = b)"

text \<open>
  The C operators are written with the usual symbols. The classes are the syntactic ones
  only: none of the algebraic laws of a ring is assumed for \<^typ>\<open>float32\<close>.
\<close>

instantiation float32 :: "{zero, one, plus, minus, uminus, times, ord}"
begin

definition zero_float32 :: float32 where
  "zero_float32 = Zero False"

definition one_float32 :: float32 where
  "one_float32 = Val 1"

definition plus_float32 :: "float32 \<Rightarrow> float32 \<Rightarrow> float32" where
  "plus_float32 a b = f32_add a b"

definition minus_float32 :: "float32 \<Rightarrow> float32 \<Rightarrow> float32" where
  "minus_float32 a b = f32_sub a b"

definition uminus_float32 :: "float32 \<Rightarrow> float32" where
  "uminus_float32 a = f32_neg a"

definition times_float32 :: "float32 \<Rightarrow> float32 \<Rightarrow> float32" where
  "times_float32 a b = f32_mul a b"

definition less_float32 :: "float32 \<Rightarrow> float32 \<Rightarrow> bool" where
  "less_float32 a b = f32_lt a b"

definition less_eq_float32 :: "float32 \<Rightarrow> float32 \<Rightarrow> bool" where
  "less_eq_float32 a b = (f32_lt a b \<or> f32_eq a b)"

instance ..

end

section \<open>Vectors and the SSE intrinsics (vector_sse3.h)\<close>

text \<open>
  \<^verbatim>\<open>vector_t\<close> is the 128-bit register \<^verbatim>\<open>__m128\<close>: four lanes, x lowest.
  \<^verbatim>\<open>vector( x, y, z, w )\<close> is \<^verbatim>\<open>_mm_setr_ps( x, y, z, w )\<close>, and
  \<^verbatim>\<open>vector_x\<close> .. \<^verbatim>\<open>vector_w\<close> read the lanes back.
\<close>

datatype vector_t =
  vector (vector_x: float32) (vector_y: float32) (vector_z: float32) (vector_w: float32)

type_synonym quaternion_t = vector_t

definition lane :: "vector_t \<Rightarrow> nat \<Rightarrow> float32" where
  "lane v c =
     (if c = 0 then vector_x v else if c = 1 then vector_y v
      else if c = 2 then vector_z v else vector_w v)"

definition mm_setzero_ps :: vector_t where
  "mm_setzero_ps = vector 0 0 0 0"

definition mm_set1_ps :: "float32 \<Rightarrow> vector_t" where
  "mm_set1_ps s = vector s s s s"

definition mm_add_ps :: "vector_t \<Rightarrow> vector_t \<Rightarrow> vector_t" where
  "mm_add_ps a b =
     vector (vector_x a + vector_x b) (vector_y a + vector_y b)
            (vector_z a + vector_z b) (vector_w a + vector_w b)"

definition mm_sub_ps :: "vector_t \<Rightarrow> vector_t \<Rightarrow> vector_t" where
  "mm_sub_ps a b =
     vector (vector_x a - vector_x b) (vector_y a - vector_y b)
            (vector_z a - vector_z b) (vector_w a - vector_w b)"

definition mm_mul_ps :: "vector_t \<Rightarrow> vector_t \<Rightarrow> vector_t" where
  "mm_mul_ps a b =
     vector (vector_x a * vector_x b) (vector_y a * vector_y b)
            (vector_z a * vector_z b) (vector_w a * vector_w b)"

text \<open>\<^verbatim>\<open>_mm_addsub_ps\<close> subtracts in the even lanes and adds in the odd ones.\<close>

definition mm_addsub_ps :: "vector_t \<Rightarrow> vector_t \<Rightarrow> vector_t" where
  "mm_addsub_ps a b =
     vector (vector_x a - vector_x b) (vector_y a + vector_y b)
            (vector_z a - vector_z b) (vector_w a + vector_w b)"

text \<open>\<^verbatim>\<open>_mm_sqrt_ss\<close> takes the square root of lane 0 and copies lanes 1 to 3.\<close>

definition mm_sqrt_ss :: "vector_t \<Rightarrow> vector_t" where
  "mm_sqrt_ss a = vector (f32_sqrt (vector_x a)) (vector_y a) (vector_z a) (vector_w a)"

text \<open>
  \<^verbatim>\<open>_mm_shuffle_ps( a, b, imm8 )\<close>: lanes 0 and 1 of the result are picked from \<open>a\<close> by bits
  1:0 and 3:2 of the mask, lanes 2 and 3 from \<open>b\<close> by bits 5:4 and 7:6.
\<close>

definition mm_shuffle_ps :: "vector_t \<Rightarrow> vector_t \<Rightarrow> nat \<Rightarrow> vector_t" where
  "mm_shuffle_ps a b imm8 =
     vector (lane a (imm8 mod 4)) (lane a (imm8 div 4 mod 4))
            (lane b (imm8 div 16 mod 4)) (lane b (imm8 div 64 mod 4))"

text \<open>
  Modelled from the spec: the \<^verbatim>\<open>VECTOR_MASK_*\<close> macros are declared in a header that is
  not among the sources. The spec calls them named lane-permutation patterns in which
  each output lane independently selects one of the four input lanes; the four letters
  of a name are the sources of output lanes 0, 1, 2, 3 in this order (the order in which
  \<^verbatim>\<open>quaternion_conjugate\<close> and \<^verbatim>\<open>vector_normalize3\<close> rely on them), packed two bits per lane
  as \<^verbatim>\<open>_mm_shuffle_ps\<close> reads them, with X = 0, Y = 1, Z = 2, W = 3.
\<close>

definition vector_mask :: "nat \<Rightarrow> nat \<Rightarrow> nat \<Rightarrow> nat \<Rightarrow> nat" where
  "vector_mask l0 l1 l2 l3 = l0 + 4 * l1 + 16 * l2 + 64 * l3"

definition VECTOR_MASK_XXXX :: nat where "VECTOR_MASK_XXXX = vector_mask 0 0 0 0"
definition VECTOR_MASK_YYYY :: nat where "VECTOR_MASK_YYYY = vector_mask 1 1 1 1"
definition VECTOR_MASK_ZZZZ :: nat where "VECTOR_MASK_ZZZZ = vector_mask 2 2 2 2"
definition VECTOR_MASK_WWWW :: nat where "VECTOR_MASK_WWWW = vector_mask 3 3 3 3"
definition VECTOR_MASK_ZZWW :: nat where "VECTOR_MASK_ZZWW = vector_mask 2 2 3 3"
definition VECTOR_MASK_XYXZ :: nat where "VECTOR_MASK_XYXZ = vector_mask 0 1 0 2"
definition VECTOR_MASK_XYXW :: nat where "VECTOR_MASK_XYXW = vector_mask 0 1 0 3"
definition VECTOR_MASK_YXWZ :: nat where "VECTOR_MASK_YXWZ = vector_mask 1 0 3 2"
definition VECTOR_MASK_ZWXY :: nat where "VECTOR_MASK_ZWXY = vector_mask 2 3 0 1"
definition VECTOR_MASK_YWXZ :: nat where "VECTOR_MASK_YWXZ = vector_mask 1 3 0 2"
definition VECTOR_MASK_YXZW :: nat where "VECTOR_MASK_YXZW = vector_mask 1 0 2 3"
definition VECTOR_MASK_ZXWY :: nat where "VECTOR_MASK_ZXWY = vector_mask 2 0 3 1"
definition VECTOR_MASK_WYXZ :: nat where "VECTOR_MASK_WYXZ = vector_mask 3 1 0 2"
definition VECTOR_MASK_XYWZ :: nat where "VECTOR_MASK_XYWZ = vector_mask 0 1 3 2"
definition VECTOR_MASK_YZXW :: nat where "VECTOR_MASK_YZXW = vector_mask 1 2 0 3"
definition VECTOR_MASK_ZXYW :: nat where "VECTOR_MASK_ZXYW = vector_mask 2 0 1 3"

text \<open>
  The function \<^verbatim>\<open>vector_shuffle\<close> is hidden by the macro of the same name defined right
  after it; every call written \<^verbatim>\<open>vector_shuffle( v, mask )\<close> is the macro.
\<close>

definition vector_shuffle :: "vector_t \<Rightarrow> nat \<Rightarrow> vector_t" where
  "vector_shuffle v imm8 = mm_shuffle_ps v v imm8"

definition vector_zero :: vector_t where
  "vector_zero = mm_setzero_ps"

definition vector_mul :: "vector_t \<Rightarrow> vector_t \<Rightarrow> vector_t" where
  "vector_mul v0 v1 = mm_mul_ps v0 v1"

definition vector_add :: "vector_t \<Rightarrow> vector_t \<Rightarrow> vector_t" where
  "vector_add v0 v1 = mm_add_ps v0 v1"

definition vector_sub :: "vector_t \<Rightarrow> vector_t \<Rightarrow> vector_t" where
  "vector_sub v0 v1 = mm_sub_ps v0 v1"

definition vector_neg :: "vector_t \<Rightarrow> vector_t" where
  "vector_neg v = mm_sub_ps mm_setzero_ps v"

definition vector_scale :: "vector_t \<Rightarrow> float32 \<Rightarrow> vector_t" where
  "vector_scale v s = mm_mul_ps v (mm_set1_ps s)"

definition vector_dot :: "vector_t \<Rightarrow> vector_t \<Rightarrow> vector_t" where
  "vector_dot v0 v1 =
     (let r = mm_mul_ps v0 v1
      in mm_add_ps
           (mm_add_ps (vector_shuffle r VECTOR_MASK_XXXX) (vector_shuffle r VECTOR_MASK_YYYY))
           (mm_add_ps (vector_shuffle r VECTOR_MASK_ZZZZ) (vector_shuffle r VECTOR_MASK_WWWW)))"

definition vector_dot3 :: "vector_t \<Rightarrow> vector_t \<Rightarrow> vector_t" where
  "vector_dot3 v0 v1 =
     (let r = mm_mul_ps v0 v1
      in mm_add_ps
           (mm_add_ps (vector_shuffle r VECTOR_MASK_XXXX) (vector_shuffle r VECTOR_MASK_YYYY))
           (vector_shuffle r VECTOR_MASK_ZZZZ))"

definition vector_cross3 :: "vector_t \<Rightarrow> vector_t \<Rightarrow> vector_t" where
  "vector_cross3 v0 v1 =
     (let v0yzx = vector_shuffle v0 VECTOR_MASK_YZXW;
          v1yzx = vector_shuffle v1 VECTOR_MASK_YZXW;
          v0zxy = vector_shuffle v0 VECTOR_MASK_ZXYW;
          v1zxy = vector_shuffle v1 VECTOR_MASK_ZXYW
      in vector_sub (vector_mul v0yzx v1zxy) (vector_mul v0zxy v1yzx))"

definition vector_length_sqr :: "vector_t \<Rightarrow> vector_t" where
  "vector_length_sqr v = vector_dot v v"

definition vector_length3_sqr :: "vector_t \<Rightarrow> vector_t" where
  "vector_length3_sqr v = vector_dot3 v v"

definition vector_length :: "vector_t \<Rightarrow> vector_t" where
  "vector_length v = mm_sqrt_ss (vector_length_sqr v)"

definition vector_length3 :: "vector_t \<Rightarrow> vector_t" where
  "vector_length3 v = mm_sqrt_ss (vector_length3_sqr v)"

text \<open>
  \<^verbatim>\<open>_mm_rsqrt_ps\<close> is an approximation of the reciprocal square root whose result bits
  the instruction set leaves to the processor: it is a parameter, applied to every lane.
\<close>

definition mm_rsqrt_ps :: "(float32 \<Rightarrow> float32) \<Rightarrow> vector_t \<Rightarrow> vector_t" where
  "mm_rsqrt_ps rsqrt a =
     vector (rsqrt (vector_x a)) (rsqrt (vector_y a)) (rsqrt (vector_z a)) (rsqrt (vector_w a))"

definition vector_normalize3 :: "(float32 \<Rightarrow> float32) \<Rightarrow> vector_t \<Rightarrow> vector_t" where
  "vector_normalize3 rsqrt v =
     (let norm = vector_mul v (mm_rsqrt_ps rsqrt (vector_dot3 v v));
          splice = mm_shuffle_ps norm v VECTOR_MASK_ZZWW
      in mm_shuffle_ps norm splice VECTOR_MASK_XYXW)"

text \<open>
  The function behind the macro is
  \<^verbatim>\<open>vector_t vector_shuffle( const vector_t v, unsigned int mask )\<close>. It can only be
  reached by a call that escapes the macro, with a mask known at run time.
\<close>

text \<open>
  Modelled from the spec: \<^verbatim>\<open>FOUNDATION_ASSERT_FAIL\<close> is a macro of the foundation library,
  which is not among the sources. The spec describes the guard as assert and return the
  input unchanged, failing fast in debug builds: the macro reports its message and the
  function goes on. A function that reaches it returns the messages it reported, then
  its value.
\<close>

definition vector_shuffle_function :: "vector_t \<Rightarrow> 32 word \<Rightarrow> string list \<times> vector_t" where
  "vector_shuffle_function v msk = ([''Unreachable code''], v)"

section \<open>Quaternions: the generic implementation (quaternion_base.h)\<close>

text \<open>
  The generic functions read and build quaternions lane by lane with the C operators.
  Where they call a vector function, it is the one of \<^verbatim>\<open>vector_sse3.h\<close>, the only
  vector backend among the sources.
\<close>

definition quaternion_identity :: quaternion_t where
  "quaternion_identity = vector 0 0 0 1"

definition quaternion_neg :: "quaternion_t \<Rightarrow> quaternion_t" where
  "quaternion_neg q = vector_neg q"

definition quaternion_conjugate :: "quaternion_t \<Rightarrow> quaternion_t" where
  "quaternion_conjugate q = vector (- vector_x q) (- vector_y q) (- vector_z q) (vector_w q)"

definition quaternion_mul :: "quaternion_t \<Rightarrow> quaternion_t \<Rightarrow> quaternion_t" where
  "quaternion_mul q0 q1 =
     vector
       (vector_w q1 * vector_x q0 + vector_x q1 * vector_w q0 + vector_y q1 * vector_z q0
          - vector_z q1 * vector_y q0)
       (vector_w q1 * vector_y q0 - vector_x q1 * vector_z q0 + vector_y q1 * vector_w q0
          + vector_z q1 * vector_x q0)
       (vector_w q1 * vector_z q0 + vector_x q1 * vector_y q0 - vector_y q1 * vector_x q0
          + vector_z q1 * vector_w q0)
       (vector_w q1 * vector_w q0 - vector_x q1 * vector_x q0 - vector_y q1 * vector_y q0
          - vector_z q1 * vector_z q0)"

definition quaternion_rotate :: "quaternion_t \<Rightarrow> vector_t \<Rightarrow> vector_t" where
  "quaternion_rotate q v =
     (let v1 = vector_cross3 q v;
          v1 = vector (vector_x v1 + vector_x v * vector_w q) (vector_y v1) (vector_z v1)
                 (vector_w v1);
          v1 = vector (vector_x v1) (vector_y v1 + vector_y v * vector_w q) (vector_z v1)
                 (vector_w v1);
          v1 = vector (vector_x v1) (vector_y v1) (vector_z v1 + vector_z v * vector_w q)
                 (vector_w v1);
          v2 = vector_cross3 v1 q;
          dot = vector_x q * vector_x v + vector_y q * vector_y v + vector_z q * vector_z v;
          r = vector
                (vector_x q * dot + vector_x v1 * vector_w q - vector_x v2)
                (vector_y q * dot + vector_y v1 * vector_w q - vector_y v2)
                (vector_z q * dot + vector_z v1 * vector_w q - vector_z v2)
                1
      in r)"

text \<open>
  \<^verbatim>\<open>math_acos\<close>, \<^verbatim>\<open>math_sin\<close>, \<^verbatim>\<open>math_realzero\<close> and \<^verbatim>\<open>REAL_PI\<close> belong to the foundation
  library, which is not among the sources, and the results of the first two are not
  fixed by IEEE-754: the four are parameters of \<^verbatim>\<open>quaternion_slerp\<close>.
\<close>

record math_lib =
  math_acos :: "float32 \<Rightarrow> float32"
  math_sin :: "float32 \<Rightarrow> float32"
  math_realzero :: "float32 \<Rightarrow> bool"
  REAL_PI :: float32

text \<open>
  The two \<^verbatim>\<open>return qd\<close> that leave the function early are the \<open>Inl\<close> of the first
  stage and the first branch of the second.
\<close>

definition quaternion_slerp ::
  "math_lib \<Rightarrow> quaternion_t \<Rightarrow> quaternion_t \<Rightarrow> float32 \<Rightarrow> quaternion_t" where
  "quaternion_slerp M q0 q1 factor =
     (let cosval = vector_x (vector_dot q0 q1);
          qd = (if cosval < 0 then quaternion_neg q1 else q1);
          cosval = (if cosval < 0 then vector_x (vector_dot q0 qd) else cosval);
          angle = (if - 1 < cosval
                   then (if cosval < 1 then Inr (math_acos M cosval) else Inl qd)
                   else Inr (REAL_PI M))
      in case angle of
           Inl r \<Rightarrow> r
         | Inr angle \<Rightarrow>
             if math_realzero M angle then qd
             else
               (let sinval = math_sin M angle;
                    invsin = f32_div 1 sinval;
                    c1 = math_sin M ((1 - factor) * angle) * invsin;
                    c2 = math_sin M (factor * angle) * invsin
                in vector_add (vector_scale q0 c1) (vector_scale qd c2)))"

section \<open>Quaternions: the SSE2 implementation (quaternion_sse2.h)\<close>

text \<open>
  The SSE2 header defines \<^verbatim>\<open>quaternion_conjugate\<close>, \<^verbatim>\<open>quaternion_mul\<close> and
  \<^verbatim>\<open>quaternion_rotate\<close> under the same names as the generic header and takes their place
  in an SSE2 build; here they carry the suffix \<open>_sse2\<close>.
\<close>

definition quaternion_conjugate_sse2 :: "quaternion_t \<Rightarrow> quaternion_t" where
  "quaternion_conjugate_sse2 q =
     (let qneg = vector_neg q;
          splice = mm_shuffle_ps qneg q VECTOR_MASK_ZZWW
      in mm_shuffle_ps qneg splice VECTOR_MASK_XYXZ)"

definition quaternion_mul_sse2 :: "quaternion_t \<Rightarrow> quaternion_t \<Rightarrow> quaternion_t" where
  "quaternion_mul_sse2 q0 q1 =
     (let q0_wwww = vector_shuffle q0 VECTOR_MASK_WWWW;
          q1_yxwz = vector_shuffle q1 VECTOR_MASK_YXWZ;
          q0_xxxx = vector_shuffle q0 VECTOR_MASK_XXXX;
          q1_zwxy = vector_shuffle q1 VECTOR_MASK_ZWXY;
          q0_yyyy = vector_shuffle q0 VECTOR_MASK_YYYY;
          q1_ywxz = vector_shuffle q1 VECTOR_MASK_YWXZ;
          q0w_q1yxzw = mm_mul_ps q0_wwww q1_yxwz;
          q0x_q1zwxy = mm_mul_ps q0_xxxx q1_zwxy;
          q0y_q1ywxz = mm_mul_ps q0_yyyy q1_ywxz;
          q0_zzzz = vector_shuffle q0 VECTOR_MASK_ZZZZ;
          q1_yxzw = vector_shuffle q1 VECTOR_MASK_YXZW;
          q0z_q1yxzw = mm_mul_ps q0_zzzz q1_yxzw;
          e = mm_addsub_ps q0w_q1yxzw q0x_q1zwxy;
          e = vector_shuffle e VECTOR_MASK_ZXWY;
          e = mm_addsub_ps e q0y_q1ywxz;
          e = vector_shuffle e VECTOR_MASK_WYXZ;
          e = mm_addsub_ps e q0z_q1yxzw
      in vector_shuffle e VECTOR_MASK_XYWZ)"

text \<open>
  Modelled from the spec: \<^verbatim>\<open>vector_muladd\<close> is called by \<^verbatim>\<open>quaternion_rotate\<close> and is not
  among the sources. The spec's rotation computes \<open>v1 = cross3(q,v) + v*q.w\<close> where the
  code calls \<^verbatim>\<open>vector_muladd( v, qw, v1 )\<close>: a lane-wise product of the first two arguments
  added to the third, as two separately rounded SSE2 operations.
\<close>

definition vector_muladd :: "vector_t \<Rightarrow> vector_t \<Rightarrow> vector_t \<Rightarrow> vector_t" where
  "vector_muladd v0 v1 v2 = mm_add_ps (mm_mul_ps v0 v1) v2"

definition quaternion_rotate_sse2 :: "quaternion_t \<Rightarrow> vector_t \<Rightarrow> vector_t" where
  "quaternion_rotate_sse2 q v =
     (let v1 = vector_cross3 q v;
          qw = vector_shuffle q VECTOR_MASK_WWWW;
          v2 = vector_muladd v qw v1;
          v3 = vector_cross3 v2 q;
          dot = vector_dot q v;
          v4 = vector_muladd v2 qw (vector_neg v3);
          r = vector_muladd q dot v4
      in r)"

section \<open>Matrices (matrix_base.h)\<close>

text \<open>
  \<^verbatim>\<open>matrix_t\<close> is four rows, each a \<^verbatim>\<open>vector_t\<close>; \<^verbatim>\<open>frow[row][col]\<close> is the same storage
  read and written lane by lane. The loops of this header keep both indices below 4.
\<close>

datatype matrix_t =
  matrix (row0: vector_t) (row1: vector_t) (row2: vector_t) (row3: vector_t)

definition row :: "matrix_t \<Rightarrow> nat \<Rightarrow> vector_t" where
  "row m i = (if i = 0 then row0 m else if i = 1 then row1 m else if i = 2 then row2 m else row3 m)"

definition frow :: "matrix_t \<Rightarrow> nat \<Rightarrow> nat \<Rightarrow> float32" where
  "frow m i j = lane (row m i) j"

definition set_lane :: "vector_t \<Rightarrow> nat \<Rightarrow> float32 \<Rightarrow> vector_t" where
  "set_lane v c a =
     (if c = 0 then vector a (vector_y v) (vector_z v) (vector_w v)
      else if c = 1 then vector (vector_x v) a (vector_z v) (vector_w v)
      else if c = 2 then vector (vector_x v) (vector_y v) a (vector_w v)
      else vector (vector_x v) (vector_y v) (vector_z v) a)"

definition set_frow :: "matrix_t \<Rightarrow> nat \<Rightarrow> nat \<Rightarrow> float32 \<Rightarrow> matrix_t" where
  "set_frow m i j a =
     (if i = 0 then matrix (set_lane (row0 m) j a) (row1 m) (row2 m) (row3 m)
      else if i = 1 then matrix (row0 m) (set_lane (row1 m) j a) (row2 m) (row3 m)
      else if i = 2 then matrix (row0 m) (row1 m) (set_lane (row2 m) j a) (row3 m)
      else matrix (row0 m) (row1 m) (row2 m) (set_lane (row3 m) j a))"

definition matrix_identity :: matrix_t where
  "matrix_identity =
     matrix (vector 1 0 0 0)
            (vector 0 1 0 0)
            (vector 0 0 1 0)
            (vector 0 0 0 1)"

text \<open>
  \<^verbatim>\<open>matrix_mul\<close> declares \<^verbatim>\<open>matrix_t r\<close> without a value and assigns its sixteen lanes in
  two nested loops; \<open>r\<close> below is that local as the loops find it.
\<close>

definition matrix_mul_col :: "matrix_t \<Rightarrow> matrix_t \<Rightarrow> nat \<Rightarrow> nat \<Rightarrow> matrix_t \<Rightarrow> matrix_t" where
  "matrix_mul_col m0 m1 i j r =
     set_frow r i j
       (frow m0 i 0 * frow m1 0 j + frow m0 i 1 * frow m1 1 j + frow m0 i 2 * frow m1 2 j
          + frow m0 i 3 * frow m1 3 j)"

definition matrix_mul_row :: "matrix_t \<Rightarrow> matrix_t \<Rightarrow> nat \<Rightarrow> matrix_t \<Rightarrow> matrix_t" where
  "matrix_mul_row m0 m1 i r = fold (matrix_mul_col m0 m1 i) [0 ..< 4] r"

definition matrix_mul :: "matrix_t \<Rightarrow> matrix_t \<Rightarrow> matrix_t \<Rightarrow> matrix_t" where
  "matrix_mul r m0 m1 = fold (matrix_mul_row m0 m1) [0 ..< 4] r"

section \<open>Vocabulary of the statements\<close>

text \<open>
  \<open>agrees r a\<close>: the lane \<open>r\<close> that was computed is the lane \<open>a\<close> that was expected, bit
  for bit, or \<open>a\<close> is the negative zero and \<open>r\<close> the positive one (the two compare equal
  with \<^verbatim>\<open>==\<close>).
\<close>

definition agrees :: "float32 \<Rightarrow> float32 \<Rightarrow> bool" where
  "agrees r a = (r = a \<or> (a = Zero True \<and> r = Zero False))"

definition vector_agrees :: "vector_t \<Rightarrow> vector_t \<Rightarrow> bool" where
  "vector_agrees r v =
     (agrees (vector_x r) (vector_x v) \<and> agrees (vector_y r) (vector_y v) \<and>
      agrees (vector_z r) (vector_z v) \<and> agrees (vector_w r) (vector_w v))"

definition matrix_agrees :: "matrix_t \<Rightarrow> matrix_t \<Rightarrow> bool" where
  "matrix_agrees r m =
     (vector_agrees (row0 r) (row0 m) \<and> vector_agrees (row1 r) (row1 m) \<and>
      vector_agrees (row2 r) (row2 m) \<and> vector_agrees (row3 r) (row3 m))"

text \<open>Equal with \<^verbatim>\<open>==\<close> in every lane.\<close>

definition vector_eq :: "vector_t \<Rightarrow> vector_t \<Rightarrow> bool" where
  "vector_eq r v =
     (f32_eq (vector_x r) (vector_x v) \<and> f32_eq (vector_y r) (vector_y v) \<and>
      f32_eq (vector_z r) (vector_z v) \<and> f32_eq (vector_w r) (vector_w v))"

definition matrix_eq :: "matrix_t \<Rightarrow> matrix_t \<Rightarrow> bool" where
  "matrix_eq r m =
     (vector_eq (row0 r) (row0 m) \<and> vector_eq (row1 r) (row1 m) \<and>
      vector_eq (row2 r) (row2 m) \<and> vector_eq (row3 r) (row3 m))"

text \<open>Well-formed lanes, and lanes that are moreover finite.\<close>

definition vector_wf :: "vector_t \<Rightarrow> bool" where
  "vector_wf v =
     (is_float32 (vector_x v) \<and> is_float32 (vector_y v) \<and> is_float32 (vector_z v) \<and>
      is_float32 (vector_w v))"

definition vector_finite :: "vector_t \<Rightarrow> bool" where
  "vector_finite v =
     (vector_wf v \<and> is_finite (vector_x v) \<and> is_finite (vector_y v) \<and> is_finite (vector_z v) \<and>
      is_finite (vector_w v))"

definition matrix_wf :: "matrix_t \<Rightarrow> bool" where
  "matrix_wf m = (vector_wf (row0 m) \<and> vector_wf (row1 m) \<and> vector_wf (row2 m) \<and> vector_wf (row3 m))"

definition matrix_finite :: "matrix_t \<Rightarrow> bool" where
  "matrix_finite m =
     (vector_finite (row0 m) \<and> vector_finite (row1 m) \<and> vector_finite (row2 m) \<and>
      vector_finite (row3 m))"

definition is_zero :: "float32 \<Rightarrow> bool" where
  "is_zero a = (a = Zero False \<or> a = Zero True)"

text \<open>Equal up to the sign of a zero and to the bits of a NaN.\<close>

definition zsim :: "float32 \<Rightarrow> float32 \<Rightarrow> bool" where
  "zsim a b = (a = b \<or> (is_zero a \<and> is_zero b) \<or> (is_nan a \<and> is_nan b))"

section \<open>Rounding at the values the examples use\<close>

lemmas f32_ops =
  zero_float32_def one_float32_def plus_float32_def minus_float32_def uminus_float32_def
  times_float32_def less_float32_def less_eq_float32_def

lemmas vector_masks =
  vector_mask_def
  VECTOR_MASK_XXXX_def VECTOR_MASK_YYYY_def VECTOR_MASK_ZZZZ_def VECTOR_MASK_WWWW_def
  VECTOR_MASK_ZZWW_def VECTOR_MASK_XYXZ_def VECTOR_MASK_XYXW_def VECTOR_MASK_YXWZ_def
  VECTOR_MASK_ZWXY_def VECTOR_MASK_YWXZ_def VECTOR_MASK_YXZW_def VECTOR_MASK_ZXWY_def
  VECTOR_MASK_WYXZ_def VECTOR_MASK_XYWZ_def VECTOR_MASK_YZXW_def VECTOR_MASK_ZXYW_def

lemmas sse_defs =
  mm_shuffle_ps_def vector_shuffle_def mm_mul_ps_def mm_add_ps_def mm_sub_ps_def
  mm_addsub_ps_def mm_setzero_ps_def mm_set1_ps_def mm_sqrt_ss_def mm_rsqrt_ps_def lane_def
  vector_masks

lemmas vector_defs =
  vector_mul_def vector_add_def vector_sub_def vector_neg_def vector_scale_def vector_dot_def
  vector_dot3_def vector_cross3_def vector_muladd_def

lemma powr_powi2: "2 powr (real_of_int k) = (2::real) powi k"
  by (simp add: powr_real_of_int power_int_def power_inverse inverse_eq_divide power_one_over)

lemma floor_log2I:
  assumes "2 powi k \<le> a" and "a < 2 powi (k + 1)"
  shows "\<lfloor>log 2 a\<rfloor> = k"
proof -
  have pos: "0 < a"
    using assms(1) by (smt (verit) zero_less_power_int)
  have "2 powr (real_of_int k) \<le> a"
    using assms(1) by (simp add: powr_powi2)
  moreover have "a < 2 powr (real_of_int k + 1)"
    using assms(2) powr_powi2[of "k + 1"] by simp
  ultimately show ?thesis
    using floor_log_eq_powr_iff[of a 2 k] pos by simp
qed

lemma round32_minus: "r \<noteq> 0 \<Longrightarrow> round32 (- r) = f32_neg (round32 r)"
  by (simp add: round32_def Let_def)

lemma round32_minus_sum: "x + y \<noteq> 0 \<Longrightarrow> round32 (- x - y) = f32_neg (round32 (x + y))"
  using round32_minus[of "x + y"] by simp

lemma round32_1: "round32 1 = Val 1"
  by (simp add: round32_def round_even_def Let_def)

lemma round32_2: "round32 2 = Val 2"
  using floor_log2I[of 1 2] by (simp add: round32_def round_even_def Let_def)

lemma round32_3: "round32 3 = Val 3"
  using floor_log2I[of 1 3] by (simp add: round32_def round_even_def Let_def)

lemma round32_4: "round32 4 = Val 4"
  using floor_log2I[of 2 4] by (simp add: round32_def round_even_def Let_def)

lemma round32_half: "round32 (1 / 2) = Val (1 / 2)"
  using floor_log2I[of "- 1" "1 / 2"] by (simp add: round32_def round_even_def Let_def)

lemma round32_quarter: "round32 (1 / 4) = Val (1 / 4)"
  using floor_log2I[of "- 2" "1 / 4"] by (simp add: round32_def round_even_def Let_def)

lemma round32_2_64: "round32 18446744073709551616 = Val 18446744073709551616"
  using floor_log2I[of 64 18446744073709551616]
  by (simp add: round32_def round_even_def Let_def)

lemma round32_2_128: "round32 340282366920938463463374607431768211456 = Infinity False"
  using floor_log2I[of 128 340282366920938463463374607431768211456]
  by (simp add: round32_def round_even_def Let_def)

lemmas round32_values =
  round32_1 round32_2 round32_3 round32_4 round32_half round32_quarter round32_2_64
  round32_2_128 round32_minus

section \<open>Arithmetic of finite lanes\<close>

lemma f32_neg_neg: "f32_neg (f32_neg a) = a"
  by (cases a) simp_all

lemma f32_sub_add: "\<not> is_nan a \<Longrightarrow> \<not> is_nan b \<Longrightarrow> f32_sub a b = f32_add a (f32_neg b)"
  by (cases a; cases b) simp_all

lemma f32_one_mul: "is_float32 a \<Longrightarrow> is_finite a \<Longrightarrow> f32_mul (Val 1) a = a"
  by (cases a) auto

lemma f32_mul_one: "is_float32 a \<Longrightarrow> is_finite a \<Longrightarrow> f32_mul a (Val 1) = a"
  by (cases a) auto

lemma is_zero_zero_mul: "is_finite a \<Longrightarrow> is_zero (f32_mul (Zero s) a)"
  by (cases a) (auto simp: is_zero_def)

lemma is_zero_mul_zero: "is_finite a \<Longrightarrow> is_zero (f32_mul a (Zero s))"
  by (cases a) (auto simp: is_zero_def)

lemma is_zero_add: "is_zero a \<Longrightarrow> is_zero b \<Longrightarrow> is_zero (f32_add a b)"
  by (auto simp: is_zero_def)

lemma is_zero_sub: "is_zero a \<Longrightarrow> is_zero b \<Longrightarrow> is_zero (f32_sub a b)"
  by (auto simp: is_zero_def)

lemma agrees_refl: "agrees a a"
  by (simp add: agrees_def)

lemma agrees_add_zero:
  "agrees r a \<Longrightarrow> is_finite a \<Longrightarrow> is_zero z \<Longrightarrow> agrees (f32_add r z) a"
  by (cases a) (auto simp: is_zero_def agrees_def)

lemma agrees_zero_add:
  "agrees r a \<Longrightarrow> is_finite a \<Longrightarrow> is_zero z \<Longrightarrow> agrees (f32_add z r) a"
  by (cases a) (auto simp: is_zero_def agrees_def)

lemma agrees_sub_zero:
  "agrees r a \<Longrightarrow> is_finite a \<Longrightarrow> is_zero z \<Longrightarrow> agrees (f32_sub r z) a"
  by (cases a) (auto simp: is_zero_def agrees_def)

lemma agrees_f32_eq: "agrees r a \<Longrightarrow> is_finite a \<Longrightarrow> f32_eq r a"
  by (cases a; cases r) (auto simp: agrees_def)

lemmas agrees_intros =
  agrees_add_zero agrees_zero_add agrees_sub_zero agrees_refl is_zero_zero_mul
  is_zero_mul_zero is_zero_add is_zero_sub f32_one_mul f32_mul_one

text \<open>A product of zero and a lane that is not finite is a NaN, and a NaN spreads.\<close>

lemma is_nan_zero_mul: "\<not> is_finite a \<Longrightarrow> is_nan (f32_mul (Zero s) a)"
  by (cases a) (simp_all add: default_nan_def)

lemma is_nan_mul_zero: "\<not> is_finite a \<Longrightarrow> is_nan (f32_mul a (Zero s))"
  by (cases a) (simp_all add: default_nan_def)

lemma is_nan_add_left: "is_nan a \<Longrightarrow> is_nan (f32_add a b)"
  by (cases a) simp_all

lemma is_nan_add_right: "is_nan b \<Longrightarrow> is_nan (f32_add a b)"
  by (cases a; cases b) simp_all

lemma is_nan_sub_left: "is_nan a \<Longrightarrow> is_nan (f32_sub a b)"
  by (cases a) simp_all

lemma is_nan_sub_right: "is_nan b \<Longrightarrow> is_nan (f32_sub a b)"
  by (cases a; cases b) simp_all

lemma is_nan_not_eq: "is_nan r \<Longrightarrow> \<not> f32_eq r a"
  by (cases r) simp_all

lemmas is_nan_intros =
  is_nan_zero_mul is_nan_mul_zero is_nan_add_left is_nan_add_right is_nan_sub_left
  is_nan_sub_right

section \<open>Quaternion product\<close>

text \<open>
  The generic \<^verbatim>\<open>quaternion_mul\<close> is the sign pattern of the spec, each lane summed from
  left to right.
\<close>

lemma quaternion_mul_sign_pattern:
  "vector_x (quaternion_mul q0 q1) =
     vector_w q1 * vector_x q0 + vector_x q1 * vector_w q0 + vector_y q1 * vector_z q0
       - vector_z q1 * vector_y q0"
  "vector_y (quaternion_mul q0 q1) =
     vector_w q1 * vector_y q0 - vector_x q1 * vector_z q0 + vector_y q1 * vector_w q0
       + vector_z q1 * vector_x q0"
  "vector_z (quaternion_mul q0 q1) =
     vector_w q1 * vector_z q0 + vector_x q1 * vector_y q0 - vector_y q1 * vector_x q0
       + vector_z q1 * vector_w q0"
  "vector_w (quaternion_mul q0 q1) =
     vector_w q1 * vector_w q0 - vector_x q1 * vector_x q0 - vector_y q1 * vector_y q0
       - vector_z q1 * vector_z q0"
  by (simp_all add: quaternion_mul_def)

text \<open>
  The shuffles and the three \<^verbatim>\<open>_mm_addsub_ps\<close> of the SSE2 version compute, lane for
  lane and rounding for rounding, the generic product with its two arguments exchanged.
\<close>

lemma quaternion_mul_sse2_swapped: "quaternion_mul_sse2 q0 q1 = quaternion_mul q1 q0"
proof -
  obtain x0 y0 z0 w0 where q0: "q0 = vector x0 y0 z0 w0"
    by (cases q0)
  obtain x1 y1 z1 w1 where q1: "q1 = vector x1 y1 z1 w1"
    by (cases q1)
  show ?thesis
    unfolding q0 q1 by (simp add: quaternion_mul_sse2_def quaternion_mul_def sse_defs Let_def)
qed

text \<open>
  C1: \<^verbatim>\<open>quaternion_mul( q0, q1 )\<close> has the z lane \<open>w1*z0 + x1*y0 - y1*x0 + z1*w0\<close> in the generic
  and in the SSE2 implementation. At \<open>q0 = (1,0,0,0)\<close> and \<open>q1 = (0,1,0,0)\<close> that lane is
  \<open>-1\<close>: the generic implementation returns it, the SSE2 implementation returns \<open>+1\<close>.
\<close>

theorem quaternion_mul_sse2_failing_input:
  "vector_z (quaternion_mul (vector 1 0 0 0) (vector 0 1 0 0)) = Val (- 1) \<and>
   vector_z (quaternion_mul_sse2 (vector 1 0 0 0) (vector 0 1 0 0)) = Val 1"
  by (simp add: quaternion_mul_sse2_def quaternion_mul_def sse_defs Let_def f32_ops round32_1)

section \<open>Rotation of a vector by a quaternion\<close>

text \<open>
  The generic \<^verbatim>\<open>quaternion_rotate\<close> is the formula of the spec with the three-lane dot
  product, and stores 1 in the w lane.
\<close>

lemma quaternion_rotate_formula:
  "quaternion_rotate q v =
     (let v1 = vector_add (vector_cross3 q v) (vector_scale v (vector_w q));
          v2 = vector_cross3 v1 q;
          dot = vector_x q * vector_x v + vector_y q * vector_y v + vector_z q * vector_z v
      in vector (vector_x q * dot + vector_x v1 * vector_w q - vector_x v2)
                (vector_y q * dot + vector_y v1 * vector_w q - vector_y v2)
                (vector_z q * dot + vector_z v1 * vector_w q - vector_z v2)
                1)"
  by (simp add: quaternion_rotate_def Let_def sse_defs vector_defs)

text \<open>
  C2: \<^verbatim>\<open>quaternion_rotate( q, v )\<close> has the lanes \<open>q*dot + v1*q.w - v2\<close> with the three-lane
  dot product, and 1 in the w lane, in the generic and in the SSE2 implementation. For
  the unit quaternion \<open>q = (1/2, 1/2, 1/2, 1/2)\<close> and the point \<open>v = (0, 0, 0, 1)\<close> the
  generic implementation returns \<open>(0, 0, 0, 1)\<close>; the SSE2 implementation, whose dot
  product also takes in \<open>q.w * v.w\<close> and which never stores the 1, returns
  \<open>(1/4, 1/4, 1/4, 1/2)\<close>.
\<close>

theorem quaternion_rotate_sse2_failing_input:
  "quaternion_rotate (vector (Val (1 / 2)) (Val (1 / 2)) (Val (1 / 2)) (Val (1 / 2)))
       (vector 0 0 0 1) = vector 0 0 0 1 \<and>
   quaternion_rotate_sse2 (vector (Val (1 / 2)) (Val (1 / 2)) (Val (1 / 2)) (Val (1 / 2)))
       (vector 0 0 0 1) = vector (Val (1 / 4)) (Val (1 / 4)) (Val (1 / 4)) (Val (1 / 2))"
  by (simp add: quaternion_rotate_def quaternion_rotate_sse2_def Let_def sse_defs vector_defs
      f32_ops round32_half round32_quarter)

section \<open>Lengths\<close>

lemma vector_dot_broadcast:
  "vector_dot v0 v1 =
     (let d = vector_x v0 * vector_x v1 + vector_y v0 * vector_y v1
                + (vector_z v0 * vector_z v1 + vector_w v0 * vector_w v1)
      in vector d d d d)"
  by (simp add: vector_dot_def sse_defs Let_def)

lemma vector_dot3_broadcast:
  "vector_dot3 v0 v1 =
     (let d = vector_x v0 * vector_x v1 + vector_y v0 * vector_y v1 + vector_z v0 * vector_z v1
      in vector d d d d)"
  by (simp add: vector_dot3_def sse_defs Let_def)

text \<open>
  C3 as the claim states it: every lane of \<^verbatim>\<open>vector_length( v )\<close> is the square root of
  the same lane of \<^verbatim>\<open>vector_length_sqr( v )\<close>. For \<open>v = (2, 0, 0, 0)\<close> lane 1 of the
  squared length is 4, its square root is 2, and lane 1 of the length is 4; the same
  holds of \<^verbatim>\<open>vector_length3\<close>.
\<close>

theorem vector_length_counterexample:
  "vector_y (vector_length (vector (Val 2) 0 0 0)) = Val 4 \<and>
   f32_sqrt (vector_y (vector_length_sqr (vector (Val 2) 0 0 0))) = Val 2 \<and>
   vector_y (vector_length (vector (Val 2) 0 0 0))
     \<noteq> f32_sqrt (vector_y (vector_length_sqr (vector (Val 2) 0 0 0))) \<and>
   vector_y (vector_length3 (vector (Val 2) 0 0 0)) = Val 4 \<and>
   f32_sqrt (vector_y (vector_length3_sqr (vector (Val 2) 0 0 0))) = Val 2 \<and>
   vector_y (vector_length3 (vector (Val 2) 0 0 0))
     \<noteq> f32_sqrt (vector_y (vector_length3_sqr (vector (Val 2) 0 0 0)))"
  by (simp add: vector_length_def vector_length_sqr_def vector_length3_def
      vector_length3_sqr_def vector_dot_broadcast vector_dot3_broadcast mm_sqrt_ss_def Let_def
      f32_ops round32_4 round32_2)

text \<open>
  C3, amended: the squared lengths are broadcast, the same number \<open>d\<close> in all four
  lanes; \<^verbatim>\<open>vector_length\<close> and \<^verbatim>\<open>vector_length3\<close> take the square root in lane 0 only and
  return \<open>d\<close> itself in lanes 1, 2 and 3.
\<close>

theorem vector_length_lanes:
  "vector_length_sqr v = mm_set1_ps (vector_x (vector_length_sqr v)) \<and>
   vector_length v =
     vector (f32_sqrt (vector_x (vector_length_sqr v))) (vector_x (vector_length_sqr v))
       (vector_x (vector_length_sqr v)) (vector_x (vector_length_sqr v)) \<and>
   vector_length3_sqr v = mm_set1_ps (vector_x (vector_length3_sqr v)) \<and>
   vector_length3 v =
     vector (f32_sqrt (vector_x (vector_length3_sqr v))) (vector_x (vector_length3_sqr v))
       (vector_x (vector_length3_sqr v)) (vector_x (vector_length3_sqr v))"
  by (simp add: vector_length_def vector_length_sqr_def vector_length3_def
      vector_length3_sqr_def vector_dot_broadcast vector_dot3_broadcast mm_sqrt_ss_def
      mm_set1_ps_def Let_def)

section \<open>Normalisation of the first three lanes\<close>

text \<open>
  C6: \<^verbatim>\<open>vector_normalize3( v )\<close> scales the x, y and z lanes by the reciprocal square root
  of the three-lane dot product and returns the w lane of \<open>v\<close> as it is, whatever
  approximation \<^verbatim>\<open>_mm_rsqrt_ps\<close> computes.
\<close>

theorem vector_normalize3_preserves_w:
  "vector_w (vector_normalize3 rsqrt v) = vector_w v \<and>
   vector_x (vector_normalize3 rsqrt v) = vector_x v * rsqrt (vector_x (vector_dot3 v v)) \<and>
   vector_y (vector_normalize3 rsqrt v) = vector_y v * rsqrt (vector_y (vector_dot3 v v)) \<and>
   vector_z (vector_normalize3 rsqrt v) = vector_z v * rsqrt (vector_z (vector_dot3 v v))"
  by (simp add: vector_normalize3_def vector_mul_def sse_defs Let_def)

section \<open>Conjugation\<close>

text \<open>
  What \<^verbatim>\<open>vector_neg\<close> does to a lane twice: \<open>0 - (0 - a)\<close> is \<open>a\<close> again, bit for bit,
  unless \<open>a\<close> is the negative zero (it comes back positive) or a signalling NaN (it comes
  back quiet).
\<close>

lemma f32_zero_sub_twice:
  "f32_sub (Zero False) (f32_sub (Zero False) a) = a \<longleftrightarrow> a \<noteq> Zero True \<and> \<not> is_signalling a"
  by (cases a) auto

text \<open>
  C7 as the claim states it: conjugating twice gives the quaternion back bit for bit, in
  both implementations. The SSE2 version negates by subtracting from zero, and
  \<open>0 - (- 0)\<close> is \<open>+ 0\<close>: a negative zero in the x lane does not come back.
\<close>

theorem quaternion_conjugate_sse2_counterexample:
  "quaternion_conjugate_sse2 (quaternion_conjugate_sse2 (vector (Zero True) 0 0 1))
     = vector (Zero False) 0 0 1 \<and>
   vector (Zero False) 0 0 1 \<noteq> vector (Zero True) 0 0 1"
  by (simp add: quaternion_conjugate_sse2_def vector_neg_def sse_defs Let_def f32_ops)

text \<open>
  A signalling NaN does not come back either: the subtraction sets its quiet bit.
\<close>

lemma quaternion_conjugate_sse2_signalling:
  "quaternion_conjugate_sse2 (quaternion_conjugate_sse2 (vector (NaN s False p) 0 0 1))
     = vector (NaN s True p) 0 0 1"
  by (simp add: quaternion_conjugate_sse2_def vector_neg_def sse_defs Let_def f32_ops)

text \<open>
  C7, amended: the generic \<^verbatim>\<open>quaternion_conjugate\<close> applied twice gives every quaternion
  back bit for bit; the SSE2 version does so exactly for the quaternions whose x, y and z
  lanes hold neither the negative zero nor a signalling NaN.
\<close>

theorem quaternion_conjugate_twice:
  "quaternion_conjugate (quaternion_conjugate q) = q \<and>
   (quaternion_conjugate_sse2 (quaternion_conjugate_sse2 q) = q \<longleftrightarrow>
      vector_x q \<noteq> Zero True \<and> \<not> is_signalling (vector_x q) \<and>
      vector_y q \<noteq> Zero True \<and> \<not> is_signalling (vector_y q) \<and>
      vector_z q \<noteq> Zero True \<and> \<not> is_signalling (vector_z q))"
proof -
  obtain a b c d where q: "q = vector a b c d"
    by (cases q)
  have "quaternion_conjugate (quaternion_conjugate q) = q"
    unfolding q by (simp add: quaternion_conjugate_def f32_ops f32_neg_neg)
  moreover have "quaternion_conjugate_sse2 (quaternion_conjugate_sse2 q) = q \<longleftrightarrow>
      vector_x q \<noteq> Zero True \<and> \<not> is_signalling (vector_x q) \<and>
      vector_y q \<noteq> Zero True \<and> \<not> is_signalling (vector_y q) \<and>
      vector_z q \<noteq> Zero True \<and> \<not> is_signalling (vector_z q)"
    unfolding q
    by (auto simp add: quaternion_conjugate_sse2_def vector_neg_def sse_defs Let_def f32_ops
        f32_zero_sub_twice)
  ultimately show ?thesis
    by simp
qed

section \<open>The function behind the shuffle macro\<close>

text \<open>
  C8: called with any vector and any run-time mask, the function \<^verbatim>\<open>vector_shuffle\<close>
  reports the assertion failure and returns its input unchanged.
\<close>

theorem vector_shuffle_function_returns_input:
  "snd (vector_shuffle_function v msk) = v \<and>
   fst (vector_shuffle_function v msk) = [''Unreachable code'']"
  by (simp add: vector_shuffle_function_def)

section \<open>The w lane of the cross product\<close>

text \<open>
  C10 as the claim states it: the w lane of \<^verbatim>\<open>vector_cross3( v0, v1 )\<close> is 0 whenever the w
  lanes of \<open>v0\<close> and \<open>v1\<close> are finite. With both w lanes \<open>2 ^ 64\<close> the product overflows
  to infinity, and infinity minus infinity is a NaN.
\<close>

theorem vector_cross3_w_counterexample:
  "is_float32 (Val 18446744073709551616) \<and>
   is_finite (Val 18446744073709551616) \<and>
   vector_w (vector_cross3 (vector 0 0 0 (Val 18446744073709551616))
                           (vector 0 0 0 (Val 18446744073709551616))) = default_nan \<and>
   is_nan default_nan \<and>
   vector_w (vector_cross3 (vector 0 0 0 (Val 18446744073709551616))
                           (vector 0 0 0 (Val 18446744073709551616))) \<noteq> 0"
  by (simp add: vector_cross3_def vector_sub_def vector_mul_def sse_defs Let_def f32_ops
      round32_2_64 round32_2_128 default_nan_def)

text \<open>
  C10, amended: the w lane of \<^verbatim>\<open>vector_cross3( v0, v1 )\<close> is the positive zero exactly when
  the rounded product of the two w lanes is finite.
\<close>

theorem vector_cross3_w:
  "vector_w (vector_cross3 v0 v1) = Zero False \<longleftrightarrow> is_finite (vector_w v0 * vector_w v1)"
  by (cases "vector_w v0 * vector_w v1")
     (simp_all add: vector_cross3_def vector_sub_def vector_mul_def sse_defs Let_def f32_ops
        default_nan_def)

section \<open>Identity elements\<close>

text \<open>
  C9 as the claim states it: multiplying by \<^verbatim>\<open>quaternion_identity()\<close> gives every quaternion
  back. With an infinite w lane the product \<open>0 * q.w\<close> in the x lane is a NaN.
\<close>

theorem quaternion_mul_identity_counterexample:
  "is_nan (vector_x (quaternion_mul (vector 1 0 0 (Infinity False)) quaternion_identity)) \<and>
   is_nan (vector_x (quaternion_mul quaternion_identity (vector 1 0 0 (Infinity False)))) \<and>
   quaternion_mul (vector 1 0 0 (Infinity False)) quaternion_identity
     \<noteq> vector 1 0 0 (Infinity False) \<and>
   quaternion_mul quaternion_identity (vector 1 0 0 (Infinity False))
     \<noteq> vector 1 0 0 (Infinity False)"
  by (simp add: quaternion_mul_def quaternion_identity_def f32_ops round32_1 default_nan_def)

text \<open>
  A negative zero does not survive either: \<open>1 * (- 0) + 0 * 1\<close> is \<open>(- 0) + (+ 0)\<close>, the
  positive zero.
\<close>

lemma quaternion_mul_identity_negative_zero:
  "quaternion_mul (vector (Zero True) 0 0 1) quaternion_identity = vector (Zero False) 0 0 1"
  by (simp add: quaternion_mul_def quaternion_identity_def f32_ops round32_1)

text \<open>
  C9, amended: for every quaternion with four finite lanes, the generic product with
  \<^verbatim>\<open>quaternion_identity()\<close> on either side agrees with the quaternion in every lane: it is
  the same lane bit for bit, except that a lane holding the negative zero may come back
  as the positive zero. And for every quaternion, each of the two products equals the
  quaternion with \<^verbatim>\<open>==\<close> in all four lanes exactly when its four lanes are finite.
\<close>

theorem quaternion_mul_identity:
  assumes "vector_wf q"
  shows "(vector_finite q \<longrightarrow>
            vector_agrees (quaternion_mul q quaternion_identity) q \<and>
            vector_agrees (quaternion_mul quaternion_identity q) q) \<and>
         (vector_eq (quaternion_mul q quaternion_identity) q \<longleftrightarrow> vector_finite q) \<and>
         (vector_eq (quaternion_mul quaternion_identity q) q \<longleftrightarrow> vector_finite q)"
proof -
  obtain a b c d where q: "q = vector a b c d"
    by (cases q)
  have wf: "is_float32 a" "is_float32 b" "is_float32 c" "is_float32 d"
    using assms by (simp_all add: q vector_wf_def)
  note unfold = quaternion_mul_def quaternion_identity_def f32_ops
  have right: "vector_agrees (quaternion_mul q quaternion_identity) q"
    and left: "vector_agrees (quaternion_mul quaternion_identity q) q"
    if "vector_finite q"
    using that wf unfolding q
    by (simp_all add: vector_finite_def vector_agrees_def unfold agrees_intros)
  have eq: "vector_eq r q" if "vector_agrees r q" and "vector_finite q" for r
    using that by (simp add: vector_agrees_def vector_eq_def vector_finite_def agrees_f32_eq)
  have not_right: "\<not> vector_eq (quaternion_mul q quaternion_identity) q"
    and not_left: "\<not> vector_eq (quaternion_mul quaternion_identity q) q"
    if "\<not> vector_finite q"
  proof -
    from that wf consider "\<not> is_finite a" | "\<not> is_finite b" | "\<not> is_finite c" | "\<not> is_finite d"
      by (auto simp: q vector_finite_def vector_wf_def)
    then show "\<not> vector_eq (quaternion_mul q quaternion_identity) q"
      unfolding q by cases (simp_all add: vector_eq_def unfold is_nan_intros is_nan_not_eq)
    from that wf consider "\<not> is_finite a" | "\<not> is_finite b" | "\<not> is_finite c" | "\<not> is_finite d"
      by (auto simp: q vector_finite_def vector_wf_def)
    then show "\<not> vector_eq (quaternion_mul quaternion_identity q) q"
      unfolding q by cases (simp_all add: vector_eq_def unfold is_nan_intros is_nan_not_eq)
  qed
  show ?thesis
    using right left eq not_right not_left by blast
qed

theorem quaternion_mul_identity_witness:
  "vector_finite (vector 1 (Val (- 2)) (Val 3) (Val (- 4))) \<and>
   quaternion_mul (vector 1 (Val (- 2)) (Val 3) (Val (- 4))) quaternion_identity
     = vector 1 (Val (- 2)) (Val 3) (Val (- 4)) \<and>
   quaternion_mul quaternion_identity (vector 1 (Val (- 2)) (Val 3) (Val (- 4)))
     = vector 1 (Val (- 2)) (Val 3) (Val (- 4)) \<and>
   vector_wf (vector 1 0 0 (Infinity False)) \<and>
   \<not> vector_eq (quaternion_mul (vector 1 0 0 (Infinity False)) quaternion_identity)
       (vector 1 0 0 (Infinity False))"
proof -
  have fin: "vector_finite (vector 1 (Val (- 2)) (Val 3) (Val (- 4)))"
    by (simp add: vector_finite_def vector_wf_def f32_ops round32_values)
  then have wf: "vector_wf (vector 1 (Val (- 2)) (Val 3) (Val (- 4)))"
    by (simp add: vector_finite_def)
  have wf': "vector_wf (vector 1 0 0 (Infinity False))"
    by (simp add: vector_wf_def f32_ops round32_values)
  show ?thesis
    using quaternion_mul_identity[OF wf] quaternion_mul_identity[OF wf'] fin wf'
    by (simp add: vector_agrees_def agrees_def vector_finite_def quaternion_mul_def
        quaternion_identity_def f32_ops round32_values)
qed

lemma upt_0_4: "[0 ..< 4] = [0, 1, 2, 3]"
  by (simp add: upt_rec)

text \<open>The two loops of \<^verbatim>\<open>matrix_mul\<close> assign every lane of \<open>r\<close> once.\<close>

lemma matrix_mul_unrolled:
  "matrix_mul r m0 m1 =
     (let e = (\<lambda>i j. frow m0 i 0 * frow m1 0 j + frow m0 i 1 * frow m1 1 j
                       + frow m0 i 2 * frow m1 2 j + frow m0 i 3 * frow m1 3 j)
      in matrix (vector (e 0 0) (e 0 1) (e 0 2) (e 0 3))
                (vector (e 1 0) (e 1 1) (e 1 2) (e 1 3))
                (vector (e 2 0) (e 2 1) (e 2 2) (e 2 3))
                (vector (e 3 0) (e 3 1) (e 3 2) (e 3 3)))"
  by (simp add: matrix_mul_def matrix_mul_row_def matrix_mul_col_def upt_0_4 set_frow_def
      set_lane_def Let_def)

text \<open>
  C5 as the claim states it: \<^verbatim>\<open>matrix_mul\<close> with \<^verbatim>\<open>matrix_identity()\<close> gives every matrix
  back. With an infinity in lane [0][0] of the matrix, lane [1][0] of the product
  identity times matrix and lane [0][1] of the product matrix times identity hold
  \<open>0 * infinity\<close>, a NaN, where the matrix holds 0.
\<close>

theorem matrix_mul_identity_counterexample:
  "is_nan (frow (matrix_mul matrix_identity matrix_identity
           (matrix (vector (Infinity False) 0 0 0) (vector 0 1 0 0) (vector 0 0 1 0)
              (vector 0 0 0 1))) 1 0) \<and>
   is_nan (frow (matrix_mul matrix_identity
           (matrix (vector (Infinity False) 0 0 0) (vector 0 1 0 0) (vector 0 0 1 0)
              (vector 0 0 0 1)) matrix_identity) 0 1) \<and>
   matrix_mul matrix_identity matrix_identity
       (matrix (vector (Infinity False) 0 0 0) (vector 0 1 0 0) (vector 0 0 1 0)
          (vector 0 0 0 1))
     \<noteq> matrix (vector (Infinity False) 0 0 0) (vector 0 1 0 0) (vector 0 0 1 0)
          (vector 0 0 0 1) \<and>
   matrix_mul matrix_identity
       (matrix (vector (Infinity False) 0 0 0) (vector 0 1 0 0) (vector 0 0 1 0)
          (vector 0 0 0 1)) matrix_identity
     \<noteq> matrix (vector (Infinity False) 0 0 0) (vector 0 1 0 0) (vector 0 0 1 0)
          (vector 0 0 0 1)"
  by (simp add: matrix_mul_unrolled matrix_identity_def frow_def row_def lane_def Let_def
      f32_ops round32_1 default_nan_def)

lemma matrix_mul_identity_negative_zero:
  "frow (matrix_mul r matrix_identity
           (matrix (vector (Zero True) 0 0 0) (vector 0 1 0 0) (vector 0 0 1 0)
              (vector 0 0 0 1))) 0 0 = Zero False"
  by (simp add: matrix_mul_unrolled matrix_identity_def frow_def row_def lane_def Let_def
      f32_ops round32_1)

text \<open>
  C5, amended: for every matrix with sixteen finite lanes, and whatever the local \<open>r\<close>
  held before the loops, \<^verbatim>\<open>matrix_mul\<close> with \<^verbatim>\<open>matrix_identity()\<close> on either side agrees
  with the matrix in every lane: it is the same lane bit for bit, except that a lane
  holding the negative zero may come back as the positive zero. And for every matrix,
  each of the two products equals the matrix with \<^verbatim>\<open>==\<close> in all sixteen lanes exactly when
  its sixteen lanes are finite.
\<close>

theorem matrix_mul_identity:
  assumes "matrix_wf m"
  shows "(matrix_finite m \<longrightarrow>
            matrix_agrees (matrix_mul r matrix_identity m) m \<and>
            matrix_agrees (matrix_mul r m matrix_identity) m) \<and>
         (matrix_eq (matrix_mul r matrix_identity m) m \<longleftrightarrow> matrix_finite m) \<and>
         (matrix_eq (matrix_mul r m matrix_identity) m \<longleftrightarrow> matrix_finite m)"
proof -
  obtain a b c d where m: "m = matrix a b c d"
    by (cases m)
  obtain a0 a1 a2 a3 where a: "a = vector a0 a1 a2 a3"
    by (cases a)
  obtain b0 b1 b2 b3 where b: "b = vector b0 b1 b2 b3"
    by (cases b)
  obtain c0 c1 c2 c3 where c: "c = vector c0 c1 c2 c3"
    by (cases c)
  obtain d0 d1 d2 d3 where d: "d = vector d0 d1 d2 d3"
    by (cases d)
  note unfold = matrix_mul_unrolled matrix_identity_def frow_def row_def lane_def f32_ops
  note preds = matrix_finite_def vector_finite_def matrix_wf_def vector_wf_def
  have left: "matrix_agrees (matrix_mul r matrix_identity m) m"
    and right: "matrix_agrees (matrix_mul r m matrix_identity) m"
    if "matrix_finite m"
    using that unfolding m a b c d
    by (simp_all add: unfold preds matrix_agrees_def vector_agrees_def agrees_intros)
  have eq: "matrix_eq x m" if "matrix_agrees x m" and "matrix_finite m" for x
    using that
    by (simp add: matrix_agrees_def vector_agrees_def matrix_eq_def vector_eq_def preds
        agrees_f32_eq)
  have lanes: "\<not> is_finite a0 \<or> \<not> is_finite a1 \<or> \<not> is_finite a2 \<or> \<not> is_finite a3 \<or>
      \<not> is_finite b0 \<or> \<not> is_finite b1 \<or> \<not> is_finite b2 \<or> \<not> is_finite b3 \<or>
      \<not> is_finite c0 \<or> \<not> is_finite c1 \<or> \<not> is_finite c2 \<or> \<not> is_finite c3 \<or>
      \<not> is_finite d0 \<or> \<not> is_finite d1 \<or> \<not> is_finite d2 \<or> \<not> is_finite d3"
    if "\<not> matrix_finite m"
    using that assms by (auto simp: m a b c d preds)
  have not_left: "\<not> matrix_eq (matrix_mul r matrix_identity m) m"
    if "\<not> matrix_finite m"
    using lanes[OF that] unfolding m a b c d
    by (elim disjE) (simp_all add: unfold matrix_eq_def vector_eq_def is_nan_intros is_nan_not_eq)
  have not_right: "\<not> matrix_eq (matrix_mul r m matrix_identity) m"
    if "\<not> matrix_finite m"
    using lanes[OF that] unfolding m a b c d
    by (elim disjE) (simp_all add: unfold matrix_eq_def vector_eq_def is_nan_intros is_nan_not_eq)
  show ?thesis
    using left right eq not_left not_right by blast
qed

theorem matrix_mul_identity_witness:
  "matrix_finite (matrix (vector (Val 2) 0 0 0) (vector 0 (Val 2) 0 0) (vector 0 0 (Val 2) 0)
      (vector 1 (Val 3) (Val (- 4)) 1)) \<and>
   (\<forall>r. matrix_mul r matrix_identity
           (matrix (vector (Val 2) 0 0 0) (vector 0 (Val 2) 0 0) (vector 0 0 (Val 2) 0)
              (vector 1 (Val 3) (Val (- 4)) 1))
         = matrix (vector (Val 2) 0 0 0) (vector 0 (Val 2) 0 0) (vector 0 0 (Val 2) 0)
              (vector 1 (Val 3) (Val (- 4)) 1)) \<and>
   (\<forall>r. matrix_mul r
           (matrix (vector (Val 2) 0 0 0) (vector 0 (Val 2) 0 0) (vector 0 0 (Val 2) 0)
              (vector 1 (Val 3) (Val (- 4)) 1)) matrix_identity
         = matrix (vector (Val 2) 0 0 0) (vector 0 (Val 2) 0 0) (vector 0 0 (Val 2) 0)
              (vector 1 (Val 3) (Val (- 4)) 1))"
proof -
  let ?m = "matrix (vector (Val 2) 0 0 0) (vector 0 (Val 2) 0 0) (vector 0 0 (Val 2) 0)
      (vector 1 (Val 3) (Val (- 4)) 1)"
  have fin: "matrix_finite ?m"
    by (simp add: matrix_finite_def vector_finite_def vector_wf_def f32_ops round32_values)
  then have wf: "matrix_wf ?m"
    by (simp add: matrix_finite_def vector_finite_def matrix_wf_def)
  show ?thesis
    using matrix_mul_identity[OF wf] fin
    by (simp add: matrix_agrees_def vector_agrees_def agrees_def matrix_mul_unrolled
        matrix_identity_def frow_def row_def lane_def Let_def f32_ops round32_values)
qed

section \<open>Spherical interpolation\<close>

lemma zsim_refl: "zsim a a"
  by (simp add: zsim_def)

lemma zsim_trans: "zsim a b \<Longrightarrow> zsim b c \<Longrightarrow> zsim a c"
  by (auto simp: zsim_def is_zero_def)

lemma zsim_add: "zsim a a' \<Longrightarrow> zsim b b' \<Longrightarrow> zsim (f32_add a b) (f32_add a' b')"
  by (cases a; cases b; cases a'; cases b') (auto simp: zsim_def is_zero_def)

text \<open>Multiplying by \<open>0 - b\<close> negates the product, up to the sign of a zero.\<close>

lemma zsim_mul_neg:
  "is_float32 a \<Longrightarrow> is_float32 b \<Longrightarrow>
   zsim (f32_mul a (f32_sub (Zero False) b)) (f32_neg (f32_mul a b))"
  by (cases a; cases b) (auto simp: zsim_def is_zero_def round32_minus default_nan_def)

lemma zsim_add_neg: "zsim (f32_add (f32_neg a) (f32_neg b)) (f32_neg (f32_add a b))"
  by (cases a; cases b) (auto simp: zsim_def is_zero_def round32_minus_sum default_nan_def)

lemma zsim_neg_negative: "zsim c' (f32_neg c) \<Longrightarrow> f32_lt c (Zero False) \<Longrightarrow> c' = f32_neg c"
  by (cases c) (auto simp: zsim_def is_zero_def)

lemma f32_neg_negative: "f32_lt c (Zero False) \<Longrightarrow> \<not> f32_lt (f32_neg c) (Zero False)"
  by (cases c) auto

lemma vector_dot_neg:
  assumes "vector_wf q0" and "vector_wf q1"
  shows "zsim (vector_x (vector_dot q0 (quaternion_neg q1)))
              (f32_neg (vector_x (vector_dot q0 q1)))"
proof -
  obtain a0 a1 a2 a3 where a: "q0 = vector a0 a1 a2 a3"
    by (cases q0)
  obtain b0 b1 b2 b3 where b: "q1 = vector b0 b1 b2 b3"
    by (cases q1)
  have wf: "is_float32 a0" "is_float32 a1" "is_float32 a2" "is_float32 a3"
    "is_float32 b0" "is_float32 b1" "is_float32 b2" "is_float32 b3"
    using assms by (simp_all add: a b vector_wf_def)
  let ?n = "\<lambda>b. f32_sub (Zero False) b"
  have xy: "zsim (f32_add (f32_mul a0 (?n b0)) (f32_mul a1 (?n b1)))
                 (f32_neg (f32_add (f32_mul a0 b0) (f32_mul a1 b1)))"
    by (rule zsim_trans[OF zsim_add[OF zsim_mul_neg zsim_mul_neg] zsim_add_neg])
       (simp_all add: wf)
  have zw: "zsim (f32_add (f32_mul a2 (?n b2)) (f32_mul a3 (?n b3)))
                 (f32_neg (f32_add (f32_mul a2 b2) (f32_mul a3 b3)))"
    by (rule zsim_trans[OF zsim_add[OF zsim_mul_neg zsim_mul_neg] zsim_add_neg])
       (simp_all add: wf)
  show ?thesis
    unfolding a b
    by (simp add: vector_dot_broadcast quaternion_neg_def vector_neg_def mm_sub_ps_def
        mm_setzero_ps_def Let_def f32_ops zsim_trans[OF zsim_add[OF xy zw] zsim_add_neg])
qed

lemma f32_ge_one:
  "f32_lt (Val 1) c \<or> f32_eq (Val 1) c \<Longrightarrow> f32_lt (Val (- 1)) c \<and> \<not> f32_lt c (Val 1)"
  by (cases c) auto

lemma f32_below_one:
  "\<not> (f32_lt (Val 1) c \<or> f32_eq (Val 1) c) \<Longrightarrow> f32_lt (Val (- 1)) c \<Longrightarrow> f32_lt c (Val 1)"
  by (cases c) auto

text \<open>
  What \<^verbatim>\<open>quaternion_slerp\<close> returns once the target \<open>qd\<close> and the cosine \<open>c\<close> are settled.
\<close>

lemma quaternion_slerp_unfolded:
  "quaternion_slerp M q0 q1 t =
     (let c = vector_x (vector_dot q0 q1);
          qd = (if c < 0 then quaternion_neg q1 else q1);
          c' = (if c < 0 then vector_x (vector_dot q0 qd) else c)
      in if 1 \<le> c' then qd
         else
           (let angle = (if - 1 < c' \<and> c' < 1 then math_acos M c' else REAL_PI M)
            in if math_realzero M angle then qd
               else vector_add
                 (vector_scale q0
                    (math_sin M ((1 - t) * angle) * f32_div 1 (math_sin M angle)))
                 (vector_scale qd
                    (math_sin M (t * angle) * f32_div 1 (math_sin M angle)))))"
proof -
  let ?c = "vector_x (vector_dot q0 q1)"
  let ?cn = "vector_x (vector_dot q0 (quaternion_neg q1))"
  have one: "1 \<le> x \<Longrightarrow> - 1 < x \<and> \<not> x < 1" for x :: float32
    using f32_ge_one[of x] by (simp add: f32_ops)
  have below: "\<not> 1 \<le> x \<Longrightarrow> - 1 < x \<Longrightarrow> x < 1" for x :: float32
    using f32_below_one[of x] by (simp add: f32_ops)
  show ?thesis
  proof (cases "?c < 0")
    case True
    then show ?thesis
      using one[of ?cn] below[of ?cn] by (auto simp add: quaternion_slerp_def Let_def)
  next
    case False
    then show ?thesis
      using one[of ?c] below[of ?c] by (auto simp add: quaternion_slerp_def Let_def)
  qed
qed

text \<open>
  C4: with \<open>c\<close> the dot product of \<open>q0\<close> and \<open>q1\<close>, \<open>qd\<close> the target after the
  shortest-path correction and \<open>c'\<close> the cosine after it: when \<open>c < 0\<close> the corrected
  cosine is \<open>- c\<close>, \<open>qd\<close> is the negated \<open>q1\<close>, and the function returns what it returns
  for the negated \<open>q1\<close>; when \<open>c' \<ge> 1\<close> it returns \<open>qd\<close> for every factor; otherwise it
  interpolates from \<open>q0\<close> to \<open>qd\<close> (never to the uncorrected \<open>q1\<close>) with the angle
  \<open>math_acos c'\<close> when \<open>c'\<close> is strictly between \<open>-1\<close> and \<open>1\<close> and \<^verbatim>\<open>REAL_PI\<close> when it is
  not; and \<^verbatim>\<open>math_acos\<close> is consulted only on arguments strictly between \<open>-1\<close> and \<open>1\<close>:
  replacing it by any function that agrees with it there changes nothing.
\<close>

theorem quaternion_slerp_shortest_path:
  assumes "vector_wf q0" and "vector_wf q1"
  shows "let c = vector_x (vector_dot q0 q1);
             qd = (if c < 0 then quaternion_neg q1 else q1);
             c' = (if c < 0 then vector_x (vector_dot q0 qd) else c)
         in (c < 0 \<longrightarrow> c' = - c) \<and>
            (c < 0 \<longrightarrow>
               quaternion_slerp M q0 q1 t = quaternion_slerp M q0 (quaternion_neg q1) t) \<and>
            (1 \<le> c' \<longrightarrow> quaternion_slerp M q0 q1 t = qd) \<and>
            (\<not> 1 \<le> c' \<longrightarrow>
               quaternion_slerp M q0 q1 t =
                 (let angle = (if - 1 < c' \<and> c' < 1 then math_acos M c' else REAL_PI M)
                  in if math_realzero M angle then qd
                     else vector_add
                       (vector_scale q0
                          (math_sin M ((1 - t) * angle) * f32_div 1 (math_sin M angle)))
                       (vector_scale qd
                          (math_sin M (t * angle) * f32_div 1 (math_sin M angle))))) \<and>
            ((\<forall>u. - 1 < u \<and> u < 1 \<longrightarrow> acos' u = math_acos M u) \<longrightarrow>
               quaternion_slerp (M\<lparr>math_acos := acos'\<rparr>) q0 q1 t = quaternion_slerp M q0 q1 t)"
proof -
  let ?c = "vector_x (vector_dot q0 q1)"
  let ?cn = "vector_x (vector_dot q0 (quaternion_neg q1))"
  have neg: "?cn = - ?c" and again: "\<not> ?cn < 0" if "?c < 0"
  proof -
    have lt: "f32_lt ?c (Zero False)"
      using that by (simp add: f32_ops)
    show "?cn = - ?c"
      using zsim_neg_negative[OF vector_dot_neg[OF assms] lt] by (simp add: f32_ops)
    then show "\<not> ?cn < 0"
      using f32_neg_negative[OF lt] by (simp add: f32_ops)
  qed
  have same: "quaternion_slerp M q0 q1 t = quaternion_slerp M q0 (quaternion_neg q1) t"
    if "?c < 0"
    using that again[OF that]
    by (simp add: quaternion_slerp_unfolded[of M q0 q1] 
        quaternion_slerp_unfolded[of M q0 "quaternion_neg q1"] Let_def)
  have acos: "quaternion_slerp (M\<lparr>math_acos := acos'\<rparr>) q0 q1 t = quaternion_slerp M q0 q1 t"
    if "\<forall>u. - 1 < u \<and> u < 1 \<longrightarrow> acos' u = math_acos M u"
    using that
    by (simp add: quaternion_slerp_unfolded[of _ q0 q1] Let_def)
  show ?thesis
    using neg same acos
    by (simp add: quaternion_slerp_unfolded[of M q0 q1] Let_def)
qed

theorem quaternion_slerp_shortest_path_witness:
  "vector_wf (vector 0 0 0 1) \<and> vector_wf (vector 0 0 0 (Val (- 1))) \<and>
   vector_x (vector_dot (vector 0 0 0 1) (vector 0 0 0 (Val (- 1)))) = Val (- 1) \<and>
   vector_x (vector_dot (vector 0 0 0 1) (quaternion_neg (vector 0 0 0 (Val (- 1))))) = Val 1 \<and>
   (\<forall>M t. quaternion_slerp M (vector 0 0 0 1) (vector 0 0 0 (Val (- 1))) t = vector 0 0 0 1) \<and>
   vector_wf (vector 1 0 0 0) \<and> vector_wf (vector (Val (- (1 / 2))) 0 0 0) \<and>
   vector_x (vector_dot (vector 1 0 0 0) (vector (Val (- (1 / 2))) 0 0 0)) = Val (- (1 / 2)) \<and>
   (\<forall>M t. quaternion_slerp M (vector 1 0 0 0) (vector (Val (- (1 / 2))) 0 0 0) t =
          quaternion_slerp M (vector 1 0 0 0) (vector (Val (1 / 2)) 0 0 0) t) \<and>
   (\<forall>M t. quaternion_slerp M (vector 1 0 0 0) (vector (Val (- (1 / 2))) 0 0 0) t =
          (if math_realzero M (math_acos M (Val (1 / 2))) then vector (Val (1 / 2)) 0 0 0
           else vector_add
             (vector_scale (vector 1 0 0 0)
                (math_sin M ((1 - t) * math_acos M (Val (1 / 2)))
                   * f32_div 1 (math_sin M (math_acos M (Val (1 / 2))))))
             (vector_scale (vector (Val (1 / 2)) 0 0 0)
                (math_sin M (t * math_acos M (Val (1 / 2)))
                   * f32_div 1 (math_sin M (math_acos M (Val (1 / 2)))))))) \<and>
   (\<forall>M t. quaternion_slerp
            (M\<lparr>math_acos := \<lambda>u. if - 1 < u \<and> u < 1 then math_acos M u else default_nan\<rparr>)
            (vector 1 0 0 0) (vector 0 1 0 0) t
          = quaternion_slerp M (vector 1 0 0 0) (vector 0 1 0 0) t)"
proof -
  note eval = Let_def vector_dot_broadcast quaternion_neg_def vector_neg_def mm_sub_ps_def
    mm_setzero_ps_def f32_ops round32_values
  have half: "round32 (- (1 / 2)) = Val (- (1 / 2))"
    using round32_minus[of "1 / 2"] by (simp add: round32_values)
  have wf: "vector_wf (vector 0 0 0 1)" "vector_wf (vector 0 0 0 (Val (- 1)))"
    by (simp_all add: vector_wf_def f32_ops round32_values)
  have wf1: "vector_wf (vector 1 0 0 0)" "vector_wf (vector 0 1 0 0)"
    by (simp_all add: vector_wf_def f32_ops round32_values)
  have wf2: "vector_wf (vector (Val (- (1 / 2))) 0 0 0)"
    by (simp add: vector_wf_def f32_ops half)
  have d1: "vector_x (vector_dot (vector 0 0 0 1) (vector 0 0 0 (Val (- 1)))) = Val (- 1)"
    and d2: "vector_x (vector_dot (vector 0 0 0 1) (quaternion_neg (vector 0 0 0 (Val (- 1)))))
      = Val 1"
    by (simp_all add: eval)
  have early: "quaternion_slerp M (vector 0 0 0 1) (vector 0 0 0 (Val (- 1))) t = vector 0 0 0 1"
    for M t
    using quaternion_slerp_shortest_path[OF wf, of M t "math_acos M"]
    by (clarsimp simp add: eval)
  have neg: "quaternion_neg (vector (Val (- (1 / 2))) 0 0 0) = vector (Val (1 / 2)) 0 0 0"
    by (simp add: eval)
  have dot: "vector_x (vector_dot (vector 1 0 0 0) (vector (Val (- (1 / 2))) 0 0 0))
      = Val (- (1 / 2))"
    by (simp add: eval half)
  have dot': "vector_x (vector_dot (vector 1 0 0 0) (vector (Val (1 / 2)) 0 0 0)) = Val (1 / 2)"
    by (simp add: eval)
  have cmp: "Val (- (1 / 2)) < (0::float32)" "\<not> (1::float32) \<le> Val (1 / 2)"
    "- 1 < Val (1 / 2)" "Val (1 / 2) < (1::float32)" "- Val (- (1 / 2)) = Val (1 / 2)"
    by (simp_all add: f32_ops)
  have inst: "quaternion_slerp M (vector 1 0 0 0) (vector (Val (- (1 / 2))) 0 0 0) t =
          quaternion_slerp M (vector 1 0 0 0) (vector (Val (1 / 2)) 0 0 0) t \<and>
     quaternion_slerp M (vector 1 0 0 0) (vector (Val (- (1 / 2))) 0 0 0) t =
          (if math_realzero M (math_acos M (Val (1 / 2))) then vector (Val (1 / 2)) 0 0 0
           else vector_add
             (vector_scale (vector 1 0 0 0)
                (math_sin M ((1 - t) * math_acos M (Val (1 / 2)))
                   * f32_div 1 (math_sin M (math_acos M (Val (1 / 2))))))
             (vector_scale (vector (Val (1 / 2)) 0 0 0)
                (math_sin M (t * math_acos M (Val (1 / 2)))
                   * f32_div 1 (math_sin M (math_acos M (Val (1 / 2)))))))"
    for M t
    using quaternion_slerp_shortest_path[OF wf1(1) wf2, of M t "math_acos M"]
    by (auto simp add: Let_def neg dot dot' cmp cong: if_cong split: if_splits)
  note path = conjunct1[OF inst] and formula = conjunct2[OF inst]
  have indep: "quaternion_slerp
            (M\<lparr>math_acos := \<lambda>u. if - 1 < u \<and> u < 1 then math_acos M u else default_nan\<rparr>)
            (vector 1 0 0 0) (vector 0 1 0 0) t
          = quaternion_slerp M (vector 1 0 0 0) (vector 0 1 0 0) t"
    for M t
    using quaternion_slerp_shortest_path[OF wf1, of M t
        "\<lambda>u. if - 1 < u \<and> u < 1 then math_acos M u else default_nan"]
    by (simp add: Let_def)
  show ?thesis
    by (intro conjI allI) (rule wf wf1 wf2 d1 d2 early dot path formula indep)+
qed

end
